theory Spec2Isabelle
  imports Main "HOL-Library.Word"
begin

section \<open>The device-authorization login flow of \<^verbatim>\<open>auth/authenticator.go\<close>\<close>

text \<open>
  The development embeds \<^verbatim>\<open>VerifyDevice\<close>, \<^verbatim>\<open>GetAccessTokenForDevice\<close>,
  \<^verbatim>\<open>requestToken\<close>, \<^verbatim>\<open>NewFormRequest\<close> and \<^verbatim>\<open>checkErrorResponse\<close>.
  The program is built for amd64, so Go's \<^verbatim>\<open>int\<close> and \<^verbatim>\<open>time.Duration\<close> are both
  64-bit two's-complement integers: they are \<open>64 word\<close> here, read with \<open>sint\<close>.
  A \<^verbatim>\<open>time.Time\<close> is an instant, counted in nanoseconds.
\<close>

subsection \<open>Data\<close>

type_synonym go_int = "64 word"
type_synonym Duration = "64 word"
type_synonym Time = int

definition Second :: Duration where
  "Second = 1000000000"

record DeviceCodeResponse =
  dcr_DeviceCode :: string
  dcr_UserCode :: string
  dcr_VerificationURI :: string
  dcr_VerificationCompleteURI :: string
  dcr_ExpiresIn :: go_int
  dcr_PollingInterval :: go_int

record DeviceVerification =
  DeviceCode :: string
  UserCode :: string
  VerificationURL :: string
  VerificationCompleteURL :: string
  CheckInterval :: Duration
  ExpiresAt :: Time

record ErrorResponse =
  ErrorCode :: string
  Description :: string

record OAuthTokenResponse =
  AccessToken :: string
  RefreshToken :: string
  IDToken :: string
  otr_ExpiresIn :: go_int

subsection \<open>Errors\<close>

text \<open>
  Every error value the five functions can return. \<open>errors_Wrap e m\<close> is
  \<^verbatim>\<open>errors.Wrap(e, m)\<close>, \<open>errors_New m\<close> is \<^verbatim>\<open>errors.New(m)\<close>, \<open>AuthError r\<close> is the
  decoded \<^verbatim>\<open>ErrorResponse\<close> returned as an error. The others come from the
  libraries: \<^verbatim>\<open>net/url\<close>, \<^verbatim>\<open>net/http\<close>, \<^verbatim>\<open>encoding/json\<close> and the transport.
\<close>

datatype json_error = EOF | SyntaxError | UnmarshalTypeError

datatype error =
    UrlError string
  | InvalidMethod string
  | ContextCanceled
  | TransportError string
  | JsonError json_error
  | errors_Wrap error string
  | errors_New string
  | AuthError ErrorResponse

fun is_AuthError :: "error \<Rightarrow> bool" where
  "is_AuthError (AuthError r) = True"
| "is_AuthError _ = False"

text \<open>The \<^verbatim>\<open>Error()\<close> method: \<^verbatim>\<open>ErrorResponse.Error\<close> returns the description.\<close>

fun Error :: "error \<Rightarrow> string" where
  "Error (AuthError r) = Description r"
| "Error (errors_Wrap e m) = m @ '': '' @ Error e"
| "Error (errors_New m) = m"
| "Error (UrlError m) = m"
| "Error (InvalidMethod m) = ''net/http: invalid method '' @ m"
| "Error ContextCanceled = ''context canceled''"
| "Error (TransportError m) = m"
| "Error (JsonError EOF) = ''EOF''"
| "Error (JsonError SyntaxError) = ''invalid character''"
| "Error (JsonError UnmarshalTypeError) = ''json: cannot unmarshal''"

subsection \<open>Response bodies and \<^verbatim>\<open>encoding/json\<close>\<close>

text \<open>
  A response body is a stream that is read once. Each
  \<^verbatim>\<open>json.NewDecoder(res.Body).Decode(x)\<close> creates a decoder of its own, which reads
  from where the previous reader stopped and keeps what it has read. So a body
  is the list of the portions that successive decoders get, each one given by the
  first JSON text in it; an empty list is a body at its end. The response to a
  single request of this protocol is one JSON document: a list of length one.

  Of a JSON text only what the three target structs look at is kept: whether it
  parses, whether it is \<^verbatim>\<open>null\<close>, an object or something else, and the
  members of an object in their order, under the names \<^verbatim>\<open>encoding/json\<close> matches
  with the field tags. A number is \<open>JNumber\<close> when it is an integer literal;
  booleans, other numbers, arrays and nested objects are \<open>JOther\<close>.
\<close>

datatype jvalue = JNull | JString string | JNumber int | JOther

datatype doc = Malformed | Null | NonObject | Object "(string \<times> jvalue) list"

type_synonym body = "doc list"

text \<open>
  A string field: every member with the field's name is stored in turn, so the last
  one stays; \<^verbatim>\<open>null\<close> leaves the field as it is; any other kind of value is an
  \<^verbatim>\<open>UnmarshalTypeError\<close> (\<open>None\<close>).
\<close>

fun string_field :: "string \<Rightarrow> string \<Rightarrow> (string \<times> jvalue) list \<Rightarrow> string option" where
  "string_field k cur [] = Some cur"
| "string_field k cur ((k', v) # ms) =
     (if k' = k
      then (case v of
              JString s \<Rightarrow> string_field k s ms
            | JNull \<Rightarrow> string_field k cur ms
            | _ \<Rightarrow> None)
      else string_field k cur ms)"

text \<open>An \<^verbatim>\<open>int\<close> field: an integer literal outside the 64-bit range is a type error too.\<close>

fun int_field :: "string \<Rightarrow> go_int \<Rightarrow> (string \<times> jvalue) list \<Rightarrow> go_int option" where
  "int_field k cur [] = Some cur"
| "int_field k cur ((k', v) # ms) =
     (if k' = k
      then (case v of
              JNumber n \<Rightarrow>
                (if - (2 ^ 63) \<le> n \<and> n < 2 ^ 63 then int_field k (word_of_int n) ms else None)
            | JNull \<Rightarrow> int_field k cur ms
            | _ \<Rightarrow> None)
      else int_field k cur ms)"

definition decode_ErrorResponse :: "doc \<Rightarrow> json_error + ErrorResponse" where
  "decode_ErrorResponse d =
     (case d of
        Malformed \<Rightarrow> Inl SyntaxError
      | NonObject \<Rightarrow> Inl UnmarshalTypeError
      | Null \<Rightarrow> Inr \<lparr>ErrorCode = [], Description = []\<rparr>
      | Object ms \<Rightarrow>
          (case (string_field ''error'' [] ms, string_field ''error_description'' [] ms) of
             (Some c, Some t) \<Rightarrow> Inr \<lparr>ErrorCode = c, Description = t\<rparr>
           | _ \<Rightarrow> Inl UnmarshalTypeError))"

definition decode_OAuthTokenResponse :: "doc \<Rightarrow> json_error + OAuthTokenResponse" where
  "decode_OAuthTokenResponse d =
     (case d of
        Malformed \<Rightarrow> Inl SyntaxError
      | NonObject \<Rightarrow> Inl UnmarshalTypeError
      | Null \<Rightarrow> Inr \<lparr>AccessToken = [], RefreshToken = [], IDToken = [], otr_ExpiresIn = 0\<rparr>
      | Object ms \<Rightarrow>
          (case (string_field ''access_token'' [] ms, string_field ''refresh_token'' [] ms,
                 string_field ''id_token'' [] ms, int_field ''expires_in'' 0 ms) of
             (Some a, Some r, Some i, Some e) \<Rightarrow>
               Inr \<lparr>AccessToken = a, RefreshToken = r, IDToken = i, otr_ExpiresIn = e\<rparr>
           | _ \<Rightarrow> Inl UnmarshalTypeError))"

definition decode_DeviceCodeResponse :: "doc \<Rightarrow> json_error + DeviceCodeResponse" where
  "decode_DeviceCodeResponse d =
     (case d of
        Malformed \<Rightarrow> Inl SyntaxError
      | NonObject \<Rightarrow> Inl UnmarshalTypeError
      | Null \<Rightarrow> Inr \<lparr>dcr_DeviceCode = [], dcr_UserCode = [], dcr_VerificationURI = [],
                     dcr_VerificationCompleteURI = [], dcr_ExpiresIn = 0, dcr_PollingInterval = 0\<rparr>
      | Object ms \<Rightarrow>
          (case (string_field ''device_code'' [] ms, string_field ''user_code'' [] ms,
                 string_field ''verification_uri'' [] ms,
                 string_field ''verification_uri_complete'' [] ms,
                 int_field ''expires_in'' 0 ms, int_field ''interval'' 0 ms) of
             (Some dc, Some uc, Some vu, Some vc, Some e, Some p) \<Rightarrow>
               Inr \<lparr>dcr_DeviceCode = dc, dcr_UserCode = uc, dcr_VerificationURI = vu,
                    dcr_VerificationCompleteURI = vc, dcr_ExpiresIn = e, dcr_PollingInterval = p\<rparr>
           | _ \<Rightarrow> Inl UnmarshalTypeError))"

text \<open>
  \<^verbatim>\<open>json.NewDecoder(body).Decode(x)\<close>: the result for \<open>x\<close> and what is left of the
  body. At the end of the body the decoder returns \<^verbatim>\<open>io.EOF\<close>.
\<close>

fun json_Decode :: "(doc \<Rightarrow> json_error + 'a) \<Rightarrow> body \<Rightarrow> (json_error + 'a) \<times> body" where
  "json_Decode dec [] = (Inl EOF, [])"
| "json_Decode dec (d # ds) = (dec d, ds)"

subsection \<open>Requests and responses\<close>

type_synonym Context = "Time option"

record request =
  Method :: string
  URL :: "string \<times> string"
  Header :: "(string \<times> string) list"
  ReqBody :: "string option"
  Ctx :: Context

record response =
  StatusCode :: int
  Body :: body

record DeviceAuthenticator =
  BaseURL :: string

definition DefaultBaseURL :: string where
  "DefaultBaseURL = ''https://planetscale.us.auth0.com/''"

text \<open>\<^verbatim>\<open>New\<close>: the default base URL is a constant that parses.\<close>

definition New :: DeviceAuthenticator where
  "New = \<lparr>BaseURL = DefaultBaseURL\<rparr>"

definition formMediaType :: string where
  "formMediaType = ''application/x-www-form-urlencoded''"

definition jsonMediaType :: string where
  "jsonMediaType = ''application/json''"

definition MethodGet :: string where
  "MethodGet = ''GET''"

definition MethodPost :: string where
  "MethodPost = ''POST''"

text \<open>
  \<^verbatim>\<open>d.BaseURL.Parse(path)\<close> parses the reference and resolves it against the base.
  The parse rejects a reference with an ASCII control character; the resolved URL
  is kept as the pair of the base and the reference.
\<close>

definition is_ctl :: "char \<Rightarrow> bool" where
  "is_ctl c = (of_char c < (32::nat) \<or> of_char c = (127::nat))"

definition url_Parse :: "string \<Rightarrow> string \<Rightarrow> error + (string \<times> string)" where
  "url_Parse base ref =
     (if list_ex is_ctl ref then Inl (UrlError ''net/url: invalid control character in URL'')
      else Inr (base, ref))"

text \<open>
  \<^verbatim>\<open>http.NewRequest\<close> takes the empty method for GET and rejects a method that
  is not an HTTP token.
\<close>

definition is_token_char :: "char \<Rightarrow> bool" where
  "is_token_char c =
     (c \<in> set (''abcdefghijklmnopqrstuvwxyzABCDEFGHIJKLMNOPQRSTUVWXYZ0123456789''
               @ [CHR ''!'', CHR ''#'', CHR ''$'', CHR ''%'', CHR ''&'', CHR 0x27, CHR ''*'',
                  CHR ''+'', CHR ''-'', CHR ''.'', CHR ''^'', CHR ''_'', CHR 0x60, CHR ''|'',
                  CHR ''~'']))"

definition http_NewRequest :: "string \<Rightarrow> string \<times> string \<Rightarrow> string option \<Rightarrow> error + request" where
  "http_NewRequest method u b =
     (let m = (if method = [] then MethodGet else method)
      in if list_all is_token_char m
         then Inr \<lparr>Method = m, URL = u, Header = [], ReqBody = b, Ctx = None\<rparr>
         else Inl (InvalidMethod method))"

definition Header_Set :: "string \<Rightarrow> string \<Rightarrow> request \<Rightarrow> request" where
  "Header_Set k v req = req\<lparr>Header := (k, v) # filter (\<lambda>kv. fst kv \<noteq> k) (Header req)\<rparr>"

definition NewFormRequest ::
  "DeviceAuthenticator \<Rightarrow> Context \<Rightarrow> string \<Rightarrow> string \<Rightarrow> string \<Rightarrow> error + request" where
  "NewFormRequest d ctx method path b =
     (case url_Parse (BaseURL d) path of
        Inl err \<Rightarrow> Inl err
      | Inr u \<Rightarrow>
          (case (if method = MethodGet
                 then http_NewRequest method u None
                 else map_sum id (Header_Set ''Content-Type'' formMediaType)
                        (http_NewRequest method u (Some b))) of
             Inl err \<Rightarrow> Inl err
           | Inr req \<Rightarrow> Inr ((Header_Set ''Accept'' jsonMediaType req)\<lparr>Ctx := ctx\<rparr>)))"

subsection \<open>The error classifier\<close>

definition checkErrorResponse :: "response \<Rightarrow> error option \<times> response" where
  "checkErrorResponse res =
     (if StatusCode res \<ge> 400
      then (case json_Decode decode_ErrorResponse (Body res) of
              (Inl err, rest) \<Rightarrow>
                (Some (errors_Wrap (JsonError err) ''error decoding token response''), res\<lparr>Body := rest\<rparr>)
            | (Inr errorRes, rest) \<Rightarrow>
                (if ErrorCode errorRes = ''authorization_pending'' \<or> ErrorCode errorRes = ''slow_down''
                 then (None, res\<lparr>Body := rest\<rparr>)
                 else (Some (AuthError errorRes), res\<lparr>Body := rest\<rparr>)))
      else (None, res))"

subsection \<open>The clock, the network and what the program does to them\<close>

text \<open>
  The poller acts on the outside world through \<^verbatim>\<open>time.Sleep\<close>, \<^verbatim>\<open>time.Now\<close> and
  \<^verbatim>\<open>d.client.Do\<close> only. The world is the clock and the record of these actions;
  what the outside does in answer is a script, one \<open>exchange\<close> for each wait
  followed by a request: by how much the wait runs over, how long the round trip
  takes, and what comes back (a transport error or a response).

  A \<^verbatim>\<open>context.Context\<close> is the instant at which it is cancelled, \<open>None\<close> for one
  that never is. The request carries it (\<^verbatim>\<open>req.WithContext(ctx)\<close>), and
  \<^verbatim>\<open>Do\<close> fails with the context's error once that instant is reached.
  \<^verbatim>\<open>time.Sleep\<close> takes a duration and nothing else.
\<close>

datatype event = Sleep Time int | Do Time request

record world =
  clock :: Time
  trace :: "event list"

record exchange =
  oversleep :: nat
  latency :: nat
  reply :: "error + response"

definition time_Now :: "world \<Rightarrow> Time" where
  "time_Now w = clock w"

definition After :: "Time \<Rightarrow> Time \<Rightarrow> bool" where
  "After t u = (u < t)"

definition time_Add :: "Time \<Rightarrow> Duration \<Rightarrow> Time" where
  "time_Add t d = t + sint d"

text \<open>\<^verbatim>\<open>time.Sleep(d)\<close> pauses for at least \<open>d\<close>, and returns at once when \<open>d \<le> 0\<close>.\<close>

definition time_Sleep :: "Duration \<Rightarrow> exchange \<Rightarrow> world \<Rightarrow> world" where
  "time_Sleep d x w =
     w\<lparr>clock := clock w + max 0 (sint d) + int (oversleep x),
       trace := trace w @ [Sleep (clock w) (sint d)]\<rparr>"

definition client_Do :: "exchange \<Rightarrow> request \<Rightarrow> world \<Rightarrow> (error + response) \<times> world" where
  "client_Do x req w =
     (let w1 = w\<lparr>trace := trace w @ [Do (clock w) req]\<rparr>;
          arrival = clock w + int (latency x)
      in case Ctx req of
           None \<Rightarrow> (reply x, w1\<lparr>clock := arrival\<rparr>)
         | Some tc \<Rightarrow>
             (if tc \<le> arrival then (Inl ContextCanceled, w1\<lparr>clock := max (clock w) tc\<rparr>)
              else (reply x, w1\<lparr>clock := arrival\<rparr>)))"

subsection \<open>\<^verbatim>\<open>VerifyDevice\<close>\<close>

definition VerifyDevice ::
  "DeviceAuthenticator \<Rightarrow> Context \<Rightarrow> string \<Rightarrow> string \<Rightarrow> exchange \<Rightarrow> world
     \<Rightarrow> (error + DeviceVerification) \<times> world" where
  "VerifyDevice d ctx clientID audienceURL x w =
     (let payload = ''client_id='' @ clientID
            @ ''&scope=profile,email,read:databases,write:databases&audience='' @ audienceURL
      in case NewFormRequest d ctx MethodPost ''oauth/device/code'' payload of
           Inl err \<Rightarrow> (Inl err, w)
         | Inr req \<Rightarrow>
             (case client_Do x req w of
                (Inl err, w1) \<Rightarrow> (Inl err, w1)
              | (Inr res, w1) \<Rightarrow>
                  (case checkErrorResponse res of
                     (Some err, res1) \<Rightarrow> (Inl err, w1)
                   | (None, res1) \<Rightarrow>
                       (case json_Decode decode_DeviceCodeResponse (Body res1) of
                          (Inl err, rest) \<Rightarrow>
                            (Inl (errors_Wrap (JsonError err) ''error decoding device code response''), w1)
                        | (Inr deviceCodeRes, rest) \<Rightarrow>
                            (let checkInterval = dcr_PollingInterval deviceCodeRes * Second;
                                 expiresAt = time_Add (time_Now w1)
                                               (dcr_ExpiresIn deviceCodeRes * Second)
                             in (Inr \<lparr>DeviceCode = dcr_DeviceCode deviceCodeRes,
                                      UserCode = dcr_UserCode deviceCodeRes,
                                      VerificationURL = dcr_VerificationURI deviceCodeRes,
                                      VerificationCompleteURL =
                                        dcr_VerificationCompleteURI deviceCodeRes,
                                      CheckInterval = checkInterval,
                                      ExpiresAt = expiresAt\<rparr>, w1))))))"

subsection \<open>\<^verbatim>\<open>requestToken\<close> and \<^verbatim>\<open>GetAccessTokenForDevice\<close>\<close>

definition requestToken ::
  "DeviceAuthenticator \<Rightarrow> Context \<Rightarrow> string \<Rightarrow> string \<Rightarrow> exchange \<Rightarrow> world
     \<Rightarrow> (string \<times> error option) \<times> world" where
  "requestToken d ctx deviceCode clientID x w =
     (let payload =
            ''grant_type=urn%3Aietf%3Aparams%3Aoauth%3Agrant-type%3Adevice_code&device_code=''
            @ deviceCode @ ''&client_id='' @ clientID
      in case NewFormRequest d ctx MethodPost ''oauth/token'' payload of
           Inl err \<Rightarrow> (([], Some (errors_Wrap err ''error creating request'')), w)
         | Inr req \<Rightarrow>
             (case client_Do x req w of
                (Inl err, w1) \<Rightarrow> (([], Some (errors_Wrap err ''error performing http request'')), w1)
              | (Inr res, w1) \<Rightarrow>
                  (case checkErrorResponse res of
                     (Some err, res1) \<Rightarrow> (([], Some err), w1)
                   | (None, res1) \<Rightarrow>
                       (case json_Decode decode_OAuthTokenResponse (Body res1) of
                          (Inl err, rest) \<Rightarrow>
                            (([], Some (errors_Wrap (JsonError err) ''error decoding token response'')), w1)
                        | (Inr tokenRes, rest) \<Rightarrow> ((AccessToken tokenRes, None), w1)))))"

text \<open>
  The loop runs once for each exchange of the script. Its result is what the
  function returns (\<open>None\<close> when the script ends while the loop is still running),
  the \<^verbatim>\<open>DeviceVerification\<close> behind the pointer \<open>v\<close> as the function leaves it, and
  the world.
\<close>

fun GetAccessTokenForDevice ::
  "DeviceAuthenticator \<Rightarrow> Context \<Rightarrow> DeviceVerification \<Rightarrow> string \<Rightarrow> exchange list \<Rightarrow> world
     \<Rightarrow> (string \<times> error option) option \<times> DeviceVerification \<times> world" where
  "GetAccessTokenForDevice d ctx v clientID [] w = (None, v, w)"
| "GetAccessTokenForDevice d ctx v clientID (x # xs) w =
     (case requestToken d ctx (DeviceCode v) clientID x (time_Sleep (CheckInterval v) x w) of
        ((accessToken, err), w2) \<Rightarrow>
          (if accessToken = [] \<and> err = None
           then (if After (time_Now w2) (ExpiresAt v)
                 then (Some (accessToken, Some (errors_New ''authentication timed out'')), v, w2)
                 else GetAccessTokenForDevice d ctx v clientID xs w2)
           else (Some (accessToken, err), v, w2)))"

subsection \<open>Notions for stating the properties\<close>

text \<open>A context is live at an instant when it has not been cancelled by then.\<close>

definition live :: "Context \<Rightarrow> Time \<Rightarrow> bool" where
  "live ctx t = (case ctx of None \<Rightarrow> True | Some tc \<Rightarrow> t < tc)"

text \<open>The request that \<^verbatim>\<open>requestToken\<close> builds.\<close>

definition token_request :: "DeviceAuthenticator \<Rightarrow> Context \<Rightarrow> string \<Rightarrow> string \<Rightarrow> request" where
  "token_request d ctx deviceCode clientID =
     \<lparr>Method = MethodPost, URL = (BaseURL d, ''oauth/token''),
      Header = [(''Accept'', jsonMediaType), (''Content-Type'', formMediaType)],
      ReqBody = Some (''grant_type=urn%3Aietf%3Aparams%3Aoauth%3Agrant-type%3Adevice_code&device_code=''
            @ deviceCode @ ''&client_id='' @ clientID),
      Ctx = ctx\<rparr>"

text \<open>The request that \<^verbatim>\<open>VerifyDevice\<close> builds.\<close>

definition device_request :: "DeviceAuthenticator \<Rightarrow> Context \<Rightarrow> string \<Rightarrow> string \<Rightarrow> request" where
  "device_request d ctx clientID audienceURL =
     \<lparr>Method = MethodPost, URL = (BaseURL d, ''oauth/device/code''),
      Header = [(''Accept'', jsonMediaType), (''Content-Type'', formMediaType)],
      ReqBody = Some (''client_id='' @ clientID
            @ ''&scope=profile,email,read:databases,write:databases&audience='' @ audienceURL),
      Ctx = ctx\<rparr>"

text \<open>The number of calls of \<^verbatim>\<open>client.Do\<close> in a trace, and their instants.\<close>

fun requests :: "event list \<Rightarrow> nat" where
  "requests [] = 0"
| "requests (Do t r # es) = Suc (requests es)"
| "requests (Sleep t n # es) = requests es"

fun request_times :: "event list \<Rightarrow> Time list" where
  "request_times [] = []"
| "request_times (Do t r # es) = t # request_times es"
| "request_times (Sleep t n # es) = request_times es"

text \<open>
  \<open>polled d ctx v clientID xs w\<close>: the loop, started in \<open>w\<close>, goes through all of
  \<open>xs\<close> and is still polling, in the world given: every attempt came back with no
  token and no error, at a time that is not after \<open>ExpiresAt v\<close>.
\<close>

fun polled ::
  "DeviceAuthenticator \<Rightarrow> Context \<Rightarrow> DeviceVerification \<Rightarrow> string \<Rightarrow> exchange list \<Rightarrow> world
     \<Rightarrow> world option" where
  "polled d ctx v clientID [] w = Some w"
| "polled d ctx v clientID (x # xs) w =
     (case requestToken d ctx (DeviceCode v) clientID x (time_Sleep (CheckInterval v) x w) of
        ((accessToken, err), w2) \<Rightarrow>
          (if accessToken = [] \<and> err = None \<and> \<not> After (time_Now w2) (ExpiresAt v)
           then polled d ctx v clientID xs w2
           else None))"

text \<open>
  \<open>paced n t es\<close>: the events are waits and requests in turn, starting with a wait
  no earlier than \<open>t\<close>; every wait was asked to last \<open>n\<close> and the request after it
  is made no sooner than \<open>n\<close> after the wait began. \<open>spaced n ts\<close>: each instant is
  at least \<open>n\<close> after the one before.
\<close>

fun paced :: "int \<Rightarrow> Time \<Rightarrow> event list \<Rightarrow> bool" where
  "paced n t [] = True"
| "paced n t (Sleep s m # Do r q # es) = (m = n \<and> t \<le> s \<and> s + n \<le> r \<and> paced n r es)"
| "paced n t es = False"

fun spaced :: "int \<Rightarrow> Time list \<Rightarrow> bool" where
  "spaced n (t # u # ts) = (t + n \<le> u \<and> spaced n (u # ts))"
| "spaced n ts = True"

subsection \<open>Concrete runs\<close>

text \<open>
  A device verification with a wait of five seconds that expires at second 600,
  a world whose clock is at 0, and an exchange that takes 0.2 seconds and brings
  back one JSON document under the status given.
\<close>

definition v600 :: DeviceVerification where
  "v600 = \<lparr>DeviceCode = ''D1'', UserCode = ''U1'', VerificationURL = ''https://x/d'',
           VerificationCompleteURL = ''https://x/d?c=U1'',
           CheckInterval = 5 * Second, ExpiresAt = 600000000000\<rparr>"

definition w0 :: world where
  "w0 = \<lparr>clock = 0, trace = []\<rparr>"

definition answer :: "int \<Rightarrow> doc \<Rightarrow> exchange" where
  "answer st j = \<lparr>oversleep = 0, latency = 200000000, reply = Inr \<lparr>StatusCode = st, Body = [j]\<rparr>\<rparr>"

definition pending_doc :: doc where
  "pending_doc = Object [(''error'', JString ''authorization_pending''),
                         (''error_description'', JString ''User has yet to authorize device code.'')]"

definition denied_doc :: doc where
  "denied_doc = Object [(''error'', JString ''access_denied''),
                        (''error_description'', JString ''User cancelled the flow.'')]"

definition token_doc :: doc where
  "token_doc = Object [(''access_token'', JString ''T1''), (''expires_in'', JNumber 86400)]"

definition device_doc :: "int \<Rightarrow> int \<Rightarrow> doc" where
  "device_doc e i = Object [(''device_code'', JString ''D1''), (''user_code'', JString ''U1''),
                           (''verification_uri'', JString ''https://x/d''),
                           (''verification_uri_complete'', JString ''https://x/d?c=U1''),
                           (''expires_in'', JNumber e), (''interval'', JNumber i)]"

section \<open>Properties\<close>

subsection \<open>The request builder on the two fixed paths\<close>

lemma NewFormRequest_post:
  "\<not> list_ex is_ctl path \<Longrightarrow>
   NewFormRequest d ctx MethodPost path b =
     Inr \<lparr>Method = MethodPost, URL = (BaseURL d, path),
          Header = [(''Accept'', jsonMediaType), (''Content-Type'', formMediaType)],
          ReqBody = Some b, Ctx = ctx\<rparr>"
  by (simp add: NewFormRequest_def url_Parse_def MethodPost_def MethodGet_def
      http_NewRequest_def is_token_char_def Header_Set_def)

lemma token_path_ok: "\<not> list_ex is_ctl ''oauth/token''"
  by (simp add: is_ctl_def)

lemma device_path_ok: "\<not> list_ex is_ctl ''oauth/device/code''"
  by (simp add: is_ctl_def)

subsection \<open>The error classifier\<close>

text \<open>
  Claim C3. For every response with status at least 400, \<^verbatim>\<open>checkErrorResponse\<close>
  returns no error when the decoded error code is \<^verbatim>\<open>authorization_pending\<close> or
  \<^verbatim>\<open>slow_down\<close>; for any other code it returns the decoded \<^verbatim>\<open>ErrorResponse\<close> as
  the error, whose message is the server's description; and when the error body
  does not decode it returns the wrapped decode error, which is not an
  authorization error.
\<close>

theorem checkErrorResponse_classifies:
  assumes "400 \<le> StatusCode res"
  shows "(\<forall>errorRes rest. json_Decode decode_ErrorResponse (Body res) = (Inr errorRes, rest) \<longrightarrow>
            (ErrorCode errorRes = ''authorization_pending'' \<or> ErrorCode errorRes = ''slow_down''
               \<longrightarrow> fst (checkErrorResponse res) = None) \<and>
            (ErrorCode errorRes \<noteq> ''authorization_pending'' \<and> ErrorCode errorRes \<noteq> ''slow_down''
               \<longrightarrow> fst (checkErrorResponse res) = Some (AuthError errorRes)
                   \<and> Error (AuthError errorRes) = Description errorRes))
       \<and> (\<forall>err rest. json_Decode decode_ErrorResponse (Body res) = (Inl err, rest) \<longrightarrow>
            fst (checkErrorResponse res) = Some (errors_Wrap (JsonError err) ''error decoding token response'')
            \<and> \<not> is_AuthError (errors_Wrap (JsonError err) ''error decoding token response''))"
  using assms by (simp add: checkErrorResponse_def)

theorem checkErrorResponse_classifies_witness:
  "fst (checkErrorResponse \<lparr>StatusCode = 403,
          Body = [Object [(''error'', JString ''authorization_pending''),
                          (''error_description'', JString ''pending'')]]\<rparr>) = None
   \<and> fst (checkErrorResponse \<lparr>StatusCode = 429,
          Body = [Object [(''error'', JString ''slow_down'')]]\<rparr>) = None
   \<and> fst (checkErrorResponse \<lparr>StatusCode = 403,
          Body = [Object [(''error'', JString ''access_denied''),
                          (''error_description'', JString ''User cancelled'')]]\<rparr>)
       = Some (AuthError \<lparr>ErrorCode = ''access_denied'', Description = ''User cancelled''\<rparr>)
   \<and> fst (checkErrorResponse \<lparr>StatusCode = 502, Body = [Malformed]\<rparr>)
       = Some (errors_Wrap (JsonError SyntaxError) ''error decoding token response'')"
  using
    checkErrorResponse_classifies [of "\<lparr>StatusCode = 403,
          Body = [Object [(''error'', JString ''authorization_pending''),
                          (''error_description'', JString ''pending'')]]\<rparr>"]
    checkErrorResponse_classifies [of "\<lparr>StatusCode = 429,
          Body = [Object [(''error'', JString ''slow_down'')]]\<rparr>"]
    checkErrorResponse_classifies [of "\<lparr>StatusCode = 403,
          Body = [Object [(''error'', JString ''access_denied''),
                          (''error_description'', JString ''User cancelled'')]]\<rparr>"]
    checkErrorResponse_classifies [of "\<lparr>StatusCode = 502, Body = [Malformed]\<rparr>"]
  by (simp add: decode_ErrorResponse_def)

subsection \<open>One attempt\<close>

lemma requestToken_unfold:
  "requestToken d ctx deviceCode clientID x w =
     (case client_Do x (token_request d ctx deviceCode clientID) w of
        (Inl err, w1) \<Rightarrow> (([], Some (errors_Wrap err ''error performing http request'')), w1)
      | (Inr res, w1) \<Rightarrow>
          (case checkErrorResponse res of
             (Some err, res1) \<Rightarrow> (([], Some err), w1)
           | (None, res1) \<Rightarrow>
               (case json_Decode decode_OAuthTokenResponse (Body res1) of
                  (Inl err, rest) \<Rightarrow>
                    (([], Some (errors_Wrap (JsonError err) ''error decoding token response'')), w1)
                | (Inr tokenRes, rest) \<Rightarrow> ((AccessToken tokenRes, None), w1))))"
  unfolding requestToken_def Let_def token_request_def
  by (simp only: NewFormRequest_post [OF token_path_ok] sum.case)

lemma client_Do_world:
  "client_Do x req w = (r, w1) \<Longrightarrow>
   trace w1 = trace w @ [Do (clock w) req] \<and> clock w \<le> clock w1
   \<and> clock w1 \<le> clock w + int (latency x)"
  by (auto simp: client_Do_def Let_def split: option.splits if_splits)

lemma requestToken_world:
  assumes "requestToken d ctx deviceCode clientID x w = (r, w1)"
  shows "trace w1 = trace w @ [Do (clock w) (token_request d ctx deviceCode clientID)]"
    and "clock w \<le> clock w1"
proof -
  obtain a wa where a: "client_Do x (token_request d ctx deviceCode clientID) w = (a, wa)"
    by (cases "client_Do x (token_request d ctx deviceCode clientID) w")
  have "w1 = wa"
    using assms a unfolding requestToken_unfold
    by (auto split: sum.splits prod.splits option.splits)
  with client_Do_world [OF a]
  show "trace w1 = trace w @ [Do (clock w) (token_request d ctx deviceCode clientID)]"
    and "clock w \<le> clock w1" by simp_all
qed

lemma requestToken_live:
  assumes "live ctx (clock w + int (latency x))" and "reply x = Inr res"
  shows "requestToken d ctx deviceCode clientID x w =
     (case checkErrorResponse res of
        (Some err, res1) \<Rightarrow> ([], Some err)
      | (None, res1) \<Rightarrow>
          (case json_Decode decode_OAuthTokenResponse (Body res1) of
             (Inl err, rest) \<Rightarrow> ([], Some (errors_Wrap (JsonError err) ''error decoding token response''))
           | (Inr tokenRes, rest) \<Rightarrow> (AccessToken tokenRes, None)),
      w\<lparr>trace := trace w @ [Do (clock w) (token_request d ctx deviceCode clientID)],
        clock := clock w + int (latency x)\<rparr>)"
proof -
  have "client_Do x (token_request d ctx deviceCode clientID) w =
      (Inr res, w\<lparr>trace := trace w @ [Do (clock w) (token_request d ctx deviceCode clientID)],
        clock := clock w + int (latency x)\<rparr>)"
    using assms by (auto simp: client_Do_def Let_def live_def token_request_def split: option.splits)
  then show ?thesis
    unfolding requestToken_unfold
    by (simp split: prod.splits option.splits sum.splits)
qed

subsection \<open>The loop while it keeps polling\<close>

lemma requests_append: "requests (es @ fs) = requests es + requests fs"
  by (induction es rule: requests.induct) simp_all

lemma polled_append:
  "polled d ctx v clientID xs w = Some w1 \<Longrightarrow>
   GetAccessTokenForDevice d ctx v clientID (xs @ rest) w
     = GetAccessTokenForDevice d ctx v clientID rest w1"
proof (induction xs arbitrary: w)
  case Nil
  then show ?case by simp
next
  case (Cons x xs)
  then show ?case
    by (auto split: prod.splits if_splits)
qed

lemma polled_requests:
  "polled d ctx v clientID xs w = Some w1 \<Longrightarrow>
   requests (trace w1) = requests (trace w) + length xs"
proof (induction xs arbitrary: w)
  case Nil
  then show ?case by simp
next
  case (Cons x xs)
  obtain r w2 where r: "requestToken d ctx (DeviceCode v) clientID x (time_Sleep (CheckInterval v) x w) = (r, w2)"
    by (cases "requestToken d ctx (DeviceCode v) clientID x (time_Sleep (CheckInterval v) x w)")
  from Cons.prems r have p: "polled d ctx v clientID xs w2 = Some w1"
    by (auto split: prod.splits if_splits)
  have "requests (trace w2) = Suc (requests (trace w))"
    using requestToken_world(1) [OF r] by (simp add: requests_append time_Sleep_def)
  with Cons.IH [OF p] show ?case by simp
qed

text \<open>An attempt that comes back with a token or an error ends the loop there.\<close>

lemma attempt_ends:
  assumes "polled d ctx v clientID xs w = Some w1"
    and "requestToken d ctx (DeviceCode v) clientID x (time_Sleep (CheckInterval v) x w1) = ((tok, err), w2)"
    and "tok \<noteq> [] \<or> err \<noteq> None"
  shows "GetAccessTokenForDevice d ctx v clientID (xs @ x # rest) w = (Some (tok, err), v, w2)"
    and "requests (trace w2) = requests (trace w) + length xs + 1"
proof -
  show "GetAccessTokenForDevice d ctx v clientID (xs @ x # rest) w = (Some (tok, err), v, w2)"
    using assms by (auto simp: polled_append)
  show "requests (trace w2) = requests (trace w) + length xs + 1"
    using polled_requests [OF assms(1)] requestToken_world(1) [OF assms(2)]
    by (simp add: requests_append time_Sleep_def)
qed

subsection \<open>Success\<close>

text \<open>
  Claim C4. When the response of a poll attempt passes the classifier and decodes
  to a non-empty \<^verbatim>\<open>access_token\<close>, the poller returns exactly that token with no
  error, and the attempt is its last request: after \<open>length xs\<close> inconclusive
  attempts the trace holds \<open>length xs + 1\<close> requests, whatever the rest of the
  script offers.
\<close>

theorem token_returned_at_once:
  assumes "polled d ctx v clientID xs w = Some w1"
    and "live ctx (clock (time_Sleep (CheckInterval v) x w1) + int (latency x))"
    and "reply x = Inr res"
    and "checkErrorResponse res = (None, res1)"
    and "json_Decode decode_OAuthTokenResponse (Body res1) = (Inr tokenRes, remaining)"
    and "AccessToken tokenRes \<noteq> []"
  shows "\<exists>w2. GetAccessTokenForDevice d ctx v clientID (xs @ x # rest) w
                 = (Some (AccessToken tokenRes, None), v, w2)
              \<and> requests (trace w2) = requests (trace w) + length xs + 1"
proof -
  let ?ws = "time_Sleep (CheckInterval v) x w1"
  obtain w2 where r: "requestToken d ctx (DeviceCode v) clientID x ?ws = ((AccessToken tokenRes, None), w2)"
    using requestToken_live [OF assms(2,3), of d "DeviceCode v" clientID] assms(4,5) by simp
  from attempt_ends [OF assms(1) r] assms(6) show ?thesis by simp
qed

theorem token_returned_at_once_witness:
  "fst (GetAccessTokenForDevice New None v600 ''cid''
          ([answer 200 (Object []), answer 200 (Object []), answer 200 (Object [])]
             @ answer 200 token_doc # [answer 200 token_doc]) w0)
     = Some (''T1'', None)
   \<and> requests (trace (snd (snd (GetAccessTokenForDevice New None v600 ''cid''
          ([answer 200 (Object []), answer 200 (Object []), answer 200 (Object [])]
             @ answer 200 token_doc # [answer 200 token_doc]) w0)))) = 4"
  using token_returned_at_once [of New None v600 "''cid''"
      "[answer 200 (Object []), answer 200 (Object []), answer 200 (Object [])]" w0
      "\<lparr>clock = 15600000000,
        trace = [Sleep 0 5000000000, Do 5000000000 (token_request New None ''D1'' ''cid''),
                 Sleep 5200000000 5000000000, Do 10200000000 (token_request New None ''D1'' ''cid''),
                 Sleep 10400000000 5000000000, Do 15400000000 (token_request New None ''D1'' ''cid'')]\<rparr>"
      "answer 200 token_doc" "\<lparr>StatusCode = 200, Body = [token_doc]\<rparr>"
      "\<lparr>StatusCode = 200, Body = [token_doc]\<rparr>"
      "\<lparr>AccessToken = ''T1'', RefreshToken = [], IDToken = [], otr_ExpiresIn = 86400\<rparr>" "[]"
      "[answer 200 token_doc]"]
  by (simp add: requestToken_unfold client_Do_def token_request_def v600_def w0_def answer_def
      token_doc_def time_Sleep_def checkErrorResponse_def decode_OAuthTokenResponse_def
      Second_def live_def After_def time_Now_def New_def)

subsection \<open>Terminal errors\<close>

text \<open>
  Claim C5. When the response of a poll attempt has a status of at least 400 and
  an error code other than \<^verbatim>\<open>authorization_pending\<close> and \<^verbatim>\<open>slow_down\<close>, the
  poller returns the decoded error on that attempt, whether or not the deadline
  has passed, and the attempt is its last request.
\<close>

theorem terminal_error_returned_at_once:
  assumes "polled d ctx v clientID xs w = Some w1"
    and "live ctx (clock (time_Sleep (CheckInterval v) x w1) + int (latency x))"
    and "reply x = Inr res"
    and "400 \<le> StatusCode res"
    and "json_Decode decode_ErrorResponse (Body res) = (Inr errorRes, remaining)"
    and "ErrorCode errorRes \<noteq> ''authorization_pending''"
    and "ErrorCode errorRes \<noteq> ''slow_down''"
  shows "\<exists>w2. GetAccessTokenForDevice d ctx v clientID (xs @ x # rest) w
                 = (Some ([], Some (AuthError errorRes)), v, w2)
              \<and> requests (trace w2) = requests (trace w) + length xs + 1"
proof -
  let ?ws = "time_Sleep (CheckInterval v) x w1"
  have c: "checkErrorResponse res = (Some (AuthError errorRes), res\<lparr>Body := remaining\<rparr>)"
    using assms(4-7) by (simp add: checkErrorResponse_def)
  obtain w2 where r: "requestToken d ctx (DeviceCode v) clientID x ?ws
      = (([], Some (AuthError errorRes)), w2)"
    using requestToken_live [OF assms(2,3), of d "DeviceCode v" clientID] c by simp
  from attempt_ends [OF assms(1) r] show ?thesis by simp
qed

theorem terminal_error_returned_at_once_witness:
  "GetAccessTokenForDevice New None v600 ''cid''
          ([answer 200 (Object [])] @ answer 403 denied_doc # [answer 200 token_doc]) w0
     = (Some ([], Some (AuthError \<lparr>ErrorCode = ''access_denied'',
                                    Description = ''User cancelled the flow.''\<rparr>)),
        v600,
        \<lparr>clock = 10400000000,
         trace = [Sleep 0 5000000000, Do 5000000000 (token_request New None ''D1'' ''cid''),
                  Sleep 5200000000 5000000000,
                  Do 10200000000 (token_request New None ''D1'' ''cid'')]\<rparr>)
   \<and> \<not> After 10400000000 (ExpiresAt v600)"
  using terminal_error_returned_at_once [of New None v600 "''cid''"
      "[answer 200 (Object [])]" w0
      "\<lparr>clock = 5200000000,
        trace = [Sleep 0 5000000000, Do 5000000000 (token_request New None ''D1'' ''cid'')]\<rparr>"
      "answer 403 denied_doc" "\<lparr>StatusCode = 403, Body = [denied_doc]\<rparr>"
      "\<lparr>ErrorCode = ''access_denied'', Description = ''User cancelled the flow.''\<rparr>" "[]"
      "[answer 200 token_doc]"]
  by (simp add: requestToken_unfold client_Do_def token_request_def v600_def w0_def answer_def
      denied_doc_def token_doc_def time_Sleep_def checkErrorResponse_def
      decode_OAuthTokenResponse_def decode_ErrorResponse_def
      Second_def live_def After_def time_Now_def New_def)

subsection \<open>A pending response\<close>

text \<open>
  Claim C1. The server answers every poll with status 403 and the one document
  \<^verbatim>\<open>{"error": "authorization_pending", ...}\<close>, 600 seconds before the deadline.
  The classifier returns no error, having read the body; \<^verbatim>\<open>requestToken\<close> then
  decodes the token response from the same body, which is at its end. The poller
  returns that decode error after its first request, 594.8 seconds before the
  deadline, where the claim has it poll until the deadline and time out.
\<close>

theorem pending_response_ends_polling:
  "GetAccessTokenForDevice New None v600 ''cid''
       [answer 403 pending_doc, answer 403 pending_doc, answer 200 token_doc] w0
     = (Some ([], Some (errors_Wrap (JsonError EOF) ''error decoding token response'')),
        v600,
        \<lparr>clock = 5200000000,
         trace = [Sleep 0 5000000000, Do 5000000000 (token_request New None ''D1'' ''cid'')]\<rparr>)
   \<and> \<not> After 5200000000 (ExpiresAt v600)
   \<and> fst (checkErrorResponse \<lparr>StatusCode = 403, Body = [pending_doc]\<rparr>) = None"
  by (simp add: requestToken_unfold client_Do_def token_request_def v600_def w0_def answer_def
      pending_doc_def token_doc_def time_Sleep_def checkErrorResponse_def
      decode_OAuthTokenResponse_def decode_ErrorResponse_def
      Second_def live_def After_def time_Now_def New_def)

text \<open>
  The loop by itself does time out: when an attempt comes back with no token and
  no error after the deadline, the result is the timeout error.
\<close>

lemma loop_times_out:
  assumes "polled d ctx v clientID xs w = Some w1"
    and "requestToken d ctx (DeviceCode v) clientID x (time_Sleep (CheckInterval v) x w1)
           = (([], None), w2)"
    and "After (time_Now w2) (ExpiresAt v)"
  shows "GetAccessTokenForDevice d ctx v clientID (xs @ x # rest) w
           = (Some ([], Some (errors_New ''authentication timed out'')), v, w2)"
  using assms by (simp add: polled_append)

lemma requestToken_error_not_New:
  "requestToken d ctx deviceCode clientID x w = ((tok, Some e), w1) \<Longrightarrow> e \<noteq> errors_New m"
  unfolding requestToken_unfold
  by (auto simp: checkErrorResponse_def split: sum.splits prod.splits option.splits if_splits)

subsection \<open>The device verification is only read\<close>

text \<open>
  Claim C8. \<^verbatim>\<open>GetAccessTokenForDevice\<close> leaves the \<^verbatim>\<open>DeviceVerification\<close> as it
  found it, every field of it, \<^verbatim>\<open>ExpiresAt\<close> included; and it returns the timeout
  error only at an instant after that \<^verbatim>\<open>ExpiresAt\<close>.
\<close>

theorem DeviceVerification_unchanged:
  "fst (snd (GetAccessTokenForDevice d ctx v clientID xs w)) = v
   \<and> (\<forall>tok. fst (GetAccessTokenForDevice d ctx v clientID xs w)
                = Some (tok, Some (errors_New ''authentication timed out''))
        \<longrightarrow> After (time_Now (snd (snd (GetAccessTokenForDevice d ctx v clientID xs w))))
                  (ExpiresAt v))"
proof (induction xs arbitrary: w)
  case Nil
  show ?case by simp
next
  case (Cons x xs)
  obtain tok err w2 where r:
    "requestToken d ctx (DeviceCode v) clientID x (time_Sleep (CheckInterval v) x w) = ((tok, err), w2)"
    by (metis surj_pair)
  show ?case
  proof (cases "tok = [] \<and> err = None")
    case True
    then show ?thesis using r Cons.IH [of w2] by simp
  next
    case False
    then show ?thesis using r requestToken_error_not_New [of d ctx "DeviceCode v" clientID x _ tok _ w2]
      by auto
  qed
qed


theorem DeviceVerification_unchanged_witness:
  "fst (snd (GetAccessTokenForDevice New None (v600\<lparr>ExpiresAt := 7000000000\<rparr>) ''cid''
               [answer 200 (Object []), answer 200 (Object []), answer 200 token_doc] w0))
     = v600\<lparr>ExpiresAt := 7000000000\<rparr>
   \<and> fst (GetAccessTokenForDevice New None (v600\<lparr>ExpiresAt := 7000000000\<rparr>) ''cid''
               [answer 200 (Object []), answer 200 (Object []), answer 200 token_doc] w0)
     = Some ([], Some (errors_New ''authentication timed out''))
   \<and> After (time_Now (snd (snd (GetAccessTokenForDevice New None
               (v600\<lparr>ExpiresAt := 7000000000\<rparr>) ''cid''
               [answer 200 (Object []), answer 200 (Object []), answer 200 token_doc] w0))))
        7000000000"
  using DeviceVerification_unchanged [of New None "v600\<lparr>ExpiresAt := 7000000000\<rparr>" "''cid''"
      "[answer 200 (Object []), answer 200 (Object []), answer 200 token_doc]" w0]
  by (simp add: requestToken_unfold client_Do_def token_request_def v600_def w0_def answer_def
      token_doc_def time_Sleep_def checkErrorResponse_def decode_OAuthTokenResponse_def
      Second_def After_def time_Now_def New_def)

subsection \<open>Pacing\<close>

lemma paced_mono: "paced n t es \<Longrightarrow> u \<le> t \<Longrightarrow> paced n u es"
  by (induction n t es rule: paced.induct) simp_all

lemma paced_spaced_from: "paced n t es \<Longrightarrow> u \<le> t \<Longrightarrow> spaced n (u # request_times es)"
proof (induction n t es arbitrary: u rule: paced.induct)
  case (2 n t s m r q es)
  then have "spaced n (r # request_times es)" by simp
  moreover have "u + n \<le> r" using 2 by simp
  ultimately show ?case by simp
qed simp_all

lemma spaced_tl: "spaced n (t # ts) \<Longrightarrow> spaced n ts"
  by (cases ts) simp_all

lemma paced_spaced: "paced n t es \<Longrightarrow> spaced n (request_times es)"
  using paced_spaced_from [of n t es t] spaced_tl by blast

text \<open>What one round of the loop adds to the trace.\<close>

lemma round_world:
  assumes "requestToken d ctx (DeviceCode v) clientID x (time_Sleep (CheckInterval v) x w) = (r, w2)"
  shows "trace w2 = trace w @ [Sleep (clock w) (sint (CheckInterval v)),
            Do (clock w + max 0 (sint (CheckInterval v)) + int (oversleep x))
               (token_request d ctx (DeviceCode v) clientID)]"
    and "clock w + max 0 (sint (CheckInterval v)) + int (oversleep x) \<le> clock w2"
  using requestToken_world [OF assms] by (simp_all add: time_Sleep_def)

lemma loop_paced:
  "\<exists>es. trace (snd (snd (GetAccessTokenForDevice d ctx v clientID xs w))) = trace w @ es
        \<and> paced (sint (CheckInterval v)) (clock w) es"
proof (induction xs arbitrary: w)
  case Nil
  show ?case by simp
next
  case (Cons x xs)
  let ?n = "sint (CheckInterval v)"
  let ?r = "clock w + max 0 ?n + int (oversleep x)"
  obtain tok err w2 where r:
    "requestToken d ctx (DeviceCode v) clientID x (time_Sleep (CheckInterval v) x w) = ((tok, err), w2)"
    by (metis surj_pair)
  note rw = round_world [OF r]
  have two: "paced ?n (clock w) [Sleep (clock w) ?n, Do ?r (token_request d ctx (DeviceCode v) clientID)]"
    by simp
  show ?case
  proof (cases "tok = [] \<and> err = None \<and> \<not> After (time_Now w2) (ExpiresAt v)")
    case True
    obtain es where es: "trace (snd (snd (GetAccessTokenForDevice d ctx v clientID xs w2))) = trace w2 @ es"
      and p: "paced ?n (clock w2) es"
      using Cons.IH [of w2] by blast
    have "paced ?n ?r es" using paced_mono [OF p rw(2)] .
    then have "paced ?n (clock w) (Sleep (clock w) ?n # Do ?r (token_request d ctx (DeviceCode v) clientID) # es)"
      by simp
    then show ?thesis using True r es rw(1) by auto
  next
    case False
    then have "snd (snd (GetAccessTokenForDevice d ctx v clientID (x # xs) w)) = w2"
      using r by auto
    then show ?thesis using rw(1) two by auto
  qed
qed

text \<open>
  Claim C6. What \<^verbatim>\<open>GetAccessTokenForDevice\<close> adds to the trace is a sequence of
  waits and requests in turn that starts with a wait: each request comes right
  after a wait that was asked to last \<^verbatim>\<open>CheckInterval\<close> and is made no sooner
  than that after the wait began, and each request is made at least
  \<^verbatim>\<open>CheckInterval\<close> after the request before it.
\<close>

theorem wait_before_every_request:
  "\<exists>es. trace (snd (snd (GetAccessTokenForDevice d ctx v clientID xs w))) = trace w @ es
        \<and> paced (sint (CheckInterval v)) (clock w) es
        \<and> spaced (sint (CheckInterval v)) (request_times es)"
  using loop_paced [of d ctx v clientID xs w] paced_spaced by blast

theorem wait_before_every_request_witness:
  "trace (snd (snd (GetAccessTokenForDevice New None v600 ''cid''
           [answer 200 (Object []), answer 200 token_doc] w0)))
     = trace w0 @ [Sleep 0 5000000000, Do 5000000000 (token_request New None ''D1'' ''cid''),
                   Sleep 5200000000 5000000000, Do 10200000000 (token_request New None ''D1'' ''cid'')]
   \<and> paced 5000000000 0 [Sleep 0 5000000000, Do 5000000000 (token_request New None ''D1'' ''cid''),
                   Sleep 5200000000 5000000000, Do 10200000000 (token_request New None ''D1'' ''cid'')]
   \<and> spaced 5000000000 [5000000000, 10200000000]"
  using wait_before_every_request [of New None v600 "''cid''"
           "[answer 200 (Object []), answer 200 token_doc]" w0]
  by (simp add: requestToken_unfold client_Do_def token_request_def v600_def w0_def answer_def
      token_doc_def time_Sleep_def checkErrorResponse_def decode_OAuthTokenResponse_def
      Second_def After_def time_Now_def New_def)

subsection \<open>The first attempt\<close>

text \<open>
  Claim C10. Whenever \<^verbatim>\<open>GetAccessTokenForDevice\<close> returns, it has first waited
  and then made a token request, wherever \<^verbatim>\<open>ExpiresAt\<close> lies; and when that first
  attempt comes back with a token or an error, the result is the same for every
  value of \<^verbatim>\<open>ExpiresAt\<close>: the deadline is read only after an attempt that brought
  neither.
\<close>

theorem first_attempt_precedes_outcome:
  assumes "fst (GetAccessTokenForDevice d ctx v clientID xs w) = Some r"
  shows "\<exists>x rest es. xs = x # rest
          \<and> trace (snd (snd (GetAccessTokenForDevice d ctx v clientID xs w)))
              = trace w @ Sleep (clock w) (sint (CheckInterval v))
                  # Do (clock w + max 0 (sint (CheckInterval v)) + int (oversleep x))
                       (token_request d ctx (DeviceCode v) clientID)
                  # es
          \<and> (fst (requestToken d ctx (DeviceCode v) clientID x (time_Sleep (CheckInterval v) x w))
                \<noteq> ([], None)
              \<longrightarrow> (\<forall>e. fst (GetAccessTokenForDevice d ctx (v\<lparr>ExpiresAt := e\<rparr>) clientID xs w) = Some r))"
proof (cases xs)
  case Nil
  with assms show ?thesis by simp
next
  case (Cons x rest)
  obtain tok err w2 where r:
    "requestToken d ctx (DeviceCode v) clientID x (time_Sleep (CheckInterval v) x w) = ((tok, err), w2)"
    by (metis surj_pair)
  note rw = round_world [OF r]
  have tr: "\<exists>es. trace (snd (snd (GetAccessTokenForDevice d ctx v clientID (x # rest) w))) = trace w2 @ es"
  proof (cases "tok = [] \<and> err = None \<and> \<not> After (time_Now w2) (ExpiresAt v)")
    case True
    then show ?thesis using r loop_paced [of d ctx v clientID rest w2] by auto
  next
    case False
    then have "snd (snd (GetAccessTokenForDevice d ctx v clientID (x # rest) w)) = w2"
      using r by auto
    then show ?thesis by simp
  qed
  have indep: "fst (requestToken d ctx (DeviceCode v) clientID x (time_Sleep (CheckInterval v) x w))
                \<noteq> ([], None)
              \<longrightarrow> (\<forall>e. fst (GetAccessTokenForDevice d ctx (v\<lparr>ExpiresAt := e\<rparr>) clientID (x # rest) w) = Some r)"
    using r assms Cons by auto
  show ?thesis using Cons tr rw(1) indep by auto
qed

theorem first_attempt_precedes_outcome_witness:
  "After (clock w0) (ExpiresAt (v600\<lparr>ExpiresAt := - 1\<rparr>))
   \<and> GetAccessTokenForDevice New None (v600\<lparr>ExpiresAt := - 1\<rparr>) ''cid'' [answer 200 token_doc] w0
       = (Some (''T1'', None), v600\<lparr>ExpiresAt := - 1\<rparr>,
          \<lparr>clock = 5200000000,
           trace = [Sleep 0 5000000000, Do 5000000000 (token_request New None ''D1'' ''cid'')]\<rparr>)
   \<and> GetAccessTokenForDevice New None (v600\<lparr>ExpiresAt := - 1\<rparr>) ''cid'' [answer 200 (Object [])] w0
       = (Some ([], Some (errors_New ''authentication timed out'')), v600\<lparr>ExpiresAt := - 1\<rparr>,
          \<lparr>clock = 5200000000,
           trace = [Sleep 0 5000000000, Do 5000000000 (token_request New None ''D1'' ''cid'')]\<rparr>)"
  using first_attempt_precedes_outcome [of New None "v600\<lparr>ExpiresAt := - 1\<rparr>" "''cid''"
      "[answer 200 token_doc]" w0 "(''T1'', None)"]
    first_attempt_precedes_outcome [of New None "v600\<lparr>ExpiresAt := - 1\<rparr>" "''cid''"
      "[answer 200 (Object [])]" w0 "([], Some (errors_New ''authentication timed out''))"]
  by (simp add: requestToken_unfold client_Do_def token_request_def v600_def w0_def answer_def
      token_doc_def time_Sleep_def checkErrorResponse_def decode_OAuthTokenResponse_def
      Second_def After_def time_Now_def New_def)

subsection \<open>\<^verbatim>\<open>VerifyDevice\<close>\<close>

lemma VerifyDevice_live:
  assumes "live ctx (clock w + int (latency x))" and "reply x = Inr res"
  shows "VerifyDevice d ctx clientID audienceURL x w =
     (case checkErrorResponse res of
        (Some err, res1) \<Rightarrow> Inl err
      | (None, res1) \<Rightarrow>
          (case json_Decode decode_DeviceCodeResponse (Body res1) of
             (Inl err, rest) \<Rightarrow> Inl (errors_Wrap (JsonError err) ''error decoding device code response'')
           | (Inr deviceCodeRes, rest) \<Rightarrow>
               Inr \<lparr>DeviceCode = dcr_DeviceCode deviceCodeRes,
                    UserCode = dcr_UserCode deviceCodeRes,
                    VerificationURL = dcr_VerificationURI deviceCodeRes,
                    VerificationCompleteURL = dcr_VerificationCompleteURI deviceCodeRes,
                    CheckInterval = dcr_PollingInterval deviceCodeRes * Second,
                    ExpiresAt = clock w + int (latency x)
                                + sint (dcr_ExpiresIn deviceCodeRes * Second)\<rparr>),
      w\<lparr>trace := trace w @ [Do (clock w) (device_request d ctx clientID audienceURL)],
        clock := clock w + int (latency x)\<rparr>)"
proof -
  have "client_Do x (device_request d ctx clientID audienceURL) w =
      (Inr res, w\<lparr>trace := trace w @ [Do (clock w) (device_request d ctx clientID audienceURL)],
        clock := clock w + int (latency x)\<rparr>)"
    using assms by (auto simp: client_Do_def Let_def live_def device_request_def split: option.splits)
  then show ?thesis
    unfolding VerifyDevice_def Let_def
    by (simp add: NewFormRequest_post [OF device_path_ok] device_request_def time_Add_def time_Now_def
        split: prod.splits option.splits sum.splits)
qed

lemma sint_seconds:
  fixes n :: "64 word"
  assumes "- (2 ^ 63) \<le> sint n * 1000000000" and "sint n * 1000000000 < 2 ^ 63"
  shows "sint (n * Second) = sint n * 1000000000"
proof -
  have "sint (n * Second) = signed_take_bit 63 (sint n * sint Second)"
    by (simp add: sint_word_ariths)
  also have "sint Second = 1000000000" by (simp add: Second_def)
  also have "signed_take_bit 63 (sint n * 1000000000) = sint n * 1000000000"
    using assms by (simp add: signed_take_bit_int_eq_self)
  finally show ?thesis .
qed

text \<open>
  Claim C7, amended. For every device-code response that arrives with a status
  below 400 and decodes, and whose \<^verbatim>\<open>interval\<close> and \<^verbatim>\<open>expires_in\<close>, taken as
  seconds, fit a \<^verbatim>\<open>time.Duration\<close> (a 64-bit count of nanoseconds),
  \<^verbatim>\<open>VerifyDevice\<close> returns a \<^verbatim>\<open>DeviceVerification\<close> whose \<^verbatim>\<open>CheckInterval\<close> is
  \<^verbatim>\<open>interval\<close> seconds and whose \<^verbatim>\<open>ExpiresAt\<close> is the time at which the response
  has been decoded plus \<^verbatim>\<open>expires_in\<close> seconds; the other four fields are those
  of the response.
\<close>

theorem VerifyDevice_interval_and_expiry:
  assumes "live ctx (clock w + int (latency x))"
    and "reply x = Inr res"
    and "StatusCode res < 400"
    and "json_Decode decode_DeviceCodeResponse (Body res) = (Inr deviceCodeRes, remaining)"
    and "- (2 ^ 63) \<le> sint (dcr_PollingInterval deviceCodeRes) * 1000000000"
    and "sint (dcr_PollingInterval deviceCodeRes) * 1000000000 < 2 ^ 63"
    and "- (2 ^ 63) \<le> sint (dcr_ExpiresIn deviceCodeRes) * 1000000000"
    and "sint (dcr_ExpiresIn deviceCodeRes) * 1000000000 < 2 ^ 63"
  shows "\<exists>dv w1. VerifyDevice d ctx clientID audienceURL x w = (Inr dv, w1)
           \<and> time_Now w1 = clock w + int (latency x)
           \<and> sint (CheckInterval dv) = sint (dcr_PollingInterval deviceCodeRes) * 1000000000
           \<and> ExpiresAt dv = time_Now w1 + sint (dcr_ExpiresIn deviceCodeRes) * 1000000000
           \<and> DeviceCode dv = dcr_DeviceCode deviceCodeRes
           \<and> UserCode dv = dcr_UserCode deviceCodeRes
           \<and> VerificationURL dv = dcr_VerificationURI deviceCodeRes
           \<and> VerificationCompleteURL dv = dcr_VerificationCompleteURI deviceCodeRes"
proof -
  have c: "checkErrorResponse res = (None, res)"
    using assms(3) by (simp add: checkErrorResponse_def)
  show ?thesis
    using VerifyDevice_live [OF assms(1,2), of d clientID audienceURL] c assms(4)
      sint_seconds [OF assms(5,6)] sint_seconds [OF assms(7,8)]
    by (simp add: time_Now_def)
qed

theorem VerifyDevice_interval_and_expiry_witness:
  "VerifyDevice New None ''cid'' ''aud'' (answer 200 (device_doc 600 5)) w0
     = (Inr \<lparr>DeviceCode = ''D1'', UserCode = ''U1'', VerificationURL = ''https://x/d'',
             VerificationCompleteURL = ''https://x/d?c=U1'',
             CheckInterval = 5000000000, ExpiresAt = 200000000 + 600000000000\<rparr>,
        \<lparr>clock = 200000000, trace = [Do 0 (device_request New None ''cid'' ''aud'')]\<rparr>)
   \<and> sint (5000000000 :: 64 word) = 5 * 1000000000"
  using VerifyDevice_interval_and_expiry [of None w0 "answer 200 (device_doc 600 5)"
      "\<lparr>StatusCode = 200, Body = [device_doc 600 5]\<rparr>"
      "\<lparr>dcr_DeviceCode = ''D1'', dcr_UserCode = ''U1'', dcr_VerificationURI = ''https://x/d'',
        dcr_VerificationCompleteURI = ''https://x/d?c=U1'', dcr_ExpiresIn = 600,
        dcr_PollingInterval = 5\<rparr>" "[]" New "''cid''" "''aud''"]
  by (simp add: VerifyDevice_def client_Do_def NewFormRequest_post [OF device_path_ok]
      device_request_def w0_def answer_def device_doc_def checkErrorResponse_def
      decode_DeviceCodeResponse_def Second_def live_def time_Now_def time_Add_def New_def)

text \<open>
  Claim C7 as stated fails where the multiplication by \<^verbatim>\<open>time.Second\<close> wraps
  around: a response with \<^verbatim>\<open>interval\<close> 9223372037 decodes, and the
  \<^verbatim>\<open>CheckInterval\<close> returned is negative.
\<close>

theorem VerifyDevice_interval_wraps:
  "map_sum id (sint \<circ> CheckInterval)
     (fst (VerifyDevice New None ''cid'' ''aud'' (answer 200 (device_doc 600 9223372037)) w0))
     = Inr (- 9223372036709551616)
   \<and> map_sum id (sint \<circ> dcr_PollingInterval)
       (fst (json_Decode decode_DeviceCodeResponse [device_doc 600 9223372037]))
     = Inr 9223372037
   \<and> (- 9223372036709551616 :: int) \<noteq> 9223372037 * 1000000000"
  by (simp add: VerifyDevice_def client_Do_def NewFormRequest_post [OF device_path_ok]
      w0_def answer_def device_doc_def checkErrorResponse_def
      decode_DeviceCodeResponse_def Second_def time_Now_def time_Add_def New_def)

text \<open>
  Claim C2, amended. When \<^verbatim>\<open>VerifyDevice\<close> receives a status of at least 400
  with an error body that decodes: for an error code other than
  \<^verbatim>\<open>authorization_pending\<close> and \<^verbatim>\<open>slow_down\<close> it fails with the decoded
  \<^verbatim>\<open>ErrorResponse\<close>; for these two codes it fails as well when nothing follows
  the error document in the body, with the error of decoding the device-code
  response at the end of the body, not with the \<^verbatim>\<open>ErrorResponse\<close>.
\<close>

theorem VerifyDevice_error_status:
  assumes "live ctx (clock w + int (latency x))"
    and "reply x = Inr res"
    and "400 \<le> StatusCode res"
    and "json_Decode decode_ErrorResponse (Body res) = (Inr errorRes, remaining)"
  shows "(ErrorCode errorRes \<noteq> ''authorization_pending'' \<and> ErrorCode errorRes \<noteq> ''slow_down''
            \<longrightarrow> fst (VerifyDevice d ctx clientID audienceURL x w) = Inl (AuthError errorRes))
       \<and> ((ErrorCode errorRes = ''authorization_pending'' \<or> ErrorCode errorRes = ''slow_down'')
              \<and> remaining = []
            \<longrightarrow> fst (VerifyDevice d ctx clientID audienceURL x w)
                  = Inl (errors_Wrap (JsonError EOF) ''error decoding device code response''))"
  using VerifyDevice_live [OF assms(1,2), of d clientID audienceURL] assms(3,4)
  by (auto simp: checkErrorResponse_def)

theorem VerifyDevice_error_status_witness:
  "fst (VerifyDevice New None ''cid'' ''aud'' (answer 403 denied_doc) w0)
     = Inl (AuthError \<lparr>ErrorCode = ''access_denied'', Description = ''User cancelled the flow.''\<rparr>)
   \<and> fst (VerifyDevice New None ''cid'' ''aud''
            (answer 429 (Object [(''error'', JString ''slow_down'')])) w0)
     = Inl (errors_Wrap (JsonError EOF) ''error decoding device code response'')"
  using VerifyDevice_error_status [of None w0 "answer 403 denied_doc"
        "\<lparr>StatusCode = 403, Body = [denied_doc]\<rparr>"
        "\<lparr>ErrorCode = ''access_denied'', Description = ''User cancelled the flow.''\<rparr>" "[]"
        New "''cid''" "''aud''"]
    VerifyDevice_error_status [of None w0 "answer 429 (Object [(''error'', JString ''slow_down'')])"
        "\<lparr>StatusCode = 429, Body = [Object [(''error'', JString ''slow_down'')]]\<rparr>"
        "\<lparr>ErrorCode = ''slow_down'', Description = []\<rparr>" "[]"
        New "''cid''" "''aud''"]
  by (simp add: w0_def answer_def denied_doc_def decode_ErrorResponse_def live_def)

text \<open>
  Claim C2 as stated fails for \<^verbatim>\<open>authorization_pending\<close>: the error body decodes
  to that code, and the error returned is not the decoded \<^verbatim>\<open>ErrorResponse\<close>.
\<close>

theorem VerifyDevice_pending_not_AuthError:
  "fst (VerifyDevice New None ''cid'' ''aud'' (answer 403 pending_doc) w0)
     = Inl (errors_Wrap (JsonError EOF) ''error decoding device code response'')
   \<and> fst (json_Decode decode_ErrorResponse [pending_doc])
     = Inr \<lparr>ErrorCode = ''authorization_pending'',
            Description = ''User has yet to authorize device code.''\<rparr>
   \<and> \<not> is_AuthError (errors_Wrap (JsonError EOF) ''error decoding device code response'')"
  by (simp add: VerifyDevice_def client_Do_def NewFormRequest_post [OF device_path_ok]
      w0_def answer_def pending_doc_def checkErrorResponse_def decode_ErrorResponse_def
      decode_DeviceCodeResponse_def Second_def time_Now_def time_Add_def New_def)

subsection \<open>Cancellation\<close>

lemma requestToken_cancelled:
  assumes "tc \<le> clock w + int (latency x)"
  shows "requestToken d (Some tc) deviceCode clientID x w =
     (([], Some (errors_Wrap ContextCanceled ''error performing http request'')),
      w\<lparr>trace := trace w @ [Do (clock w) (token_request d (Some tc) deviceCode clientID)],
        clock := max (clock w) tc\<rparr>)"
  using assms unfolding requestToken_unfold
  by (simp add: client_Do_def Let_def token_request_def)

text \<open>
  Claim C9, amended. Let the context be cancelled at \<open>tc\<close>, while the poller is in
  a wait or in the network call after it. The poller returns the cancellation
  error, wrapped by \<^verbatim>\<open>requestToken\<close>, and polls no more. A cancellation during the
  network call ends the call: the poller returns at \<open>tc\<close>. A cancellation during
  the wait does not end the wait: the poller returns when the wait has run in
  full, from the request made then.
\<close>

theorem cancellation_is_seen_by_the_request_only:
  assumes "polled d (Some tc) v clientID xs w = Some w1"
    and "tc \<le> clock w1 + max 0 (sint (CheckInterval v)) + int (oversleep x) + int (latency x)"
  shows "\<exists>w2. GetAccessTokenForDevice d (Some tc) v clientID (xs @ x # rest) w
                 = (Some ([], Some (errors_Wrap ContextCanceled ''error performing http request'')),
                    v, w2)
              \<and> clock w2 = max tc (clock w1 + max 0 (sint (CheckInterval v)) + int (oversleep x))
              \<and> requests (trace w2) = requests (trace w) + length xs + 1"
proof -
  let ?ws = "time_Sleep (CheckInterval v) x w1"
  have c: "clock ?ws = clock w1 + max 0 (sint (CheckInterval v)) + int (oversleep x)"
    by (simp add: time_Sleep_def)
  with assms(2) have "tc \<le> clock ?ws + int (latency x)" by simp
  from requestToken_cancelled [OF this, of d "DeviceCode v" clientID]
  obtain w2 where r: "requestToken d (Some tc) (DeviceCode v) clientID x ?ws
      = (([], Some (errors_Wrap ContextCanceled ''error performing http request'')), w2)"
    and w2: "clock w2 = max (clock ?ws) tc"
    by simp
  from attempt_ends [OF assms(1) r] w2 c show ?thesis by (simp add: max.commute)
qed

theorem cancellation_is_seen_by_the_request_only_witness:
  "GetAccessTokenForDevice New (Some 1000000000) v600 ''cid'' ([] @ answer 200 token_doc # []) w0
     = (Some ([], Some (errors_Wrap ContextCanceled ''error performing http request'')), v600,
        \<lparr>clock = 5000000000,
         trace = [Sleep 0 5000000000,
                  Do 5000000000 (token_request New (Some 1000000000) ''D1'' ''cid'')]\<rparr>)
   \<and> GetAccessTokenForDevice New (Some 10300000000) v600 ''cid''
       ([answer 200 (Object [])] @ answer 200 token_doc # [answer 200 token_doc]) w0
     = (Some ([], Some (errors_Wrap ContextCanceled ''error performing http request'')), v600,
        \<lparr>clock = 10300000000,
         trace = [Sleep 0 5000000000,
                  Do 5000000000 (token_request New (Some 10300000000) ''D1'' ''cid''),
                  Sleep 5200000000 5000000000,
                  Do 10200000000 (token_request New (Some 10300000000) ''D1'' ''cid'')]\<rparr>)"
  using cancellation_is_seen_by_the_request_only [of New 1000000000 v600 "''cid''" "[]" w0 w0
          "answer 200 token_doc" "[]"]
    cancellation_is_seen_by_the_request_only [of New 10300000000 v600 "''cid''"
          "[answer 200 (Object [])]" w0
          "\<lparr>clock = 5200000000,
            trace = [Sleep 0 5000000000,
                     Do 5000000000 (token_request New (Some 10300000000) ''D1'' ''cid'')]\<rparr>"
          "answer 200 token_doc" "[answer 200 token_doc]"]
  by (simp add: requestToken_unfold client_Do_def token_request_def v600_def w0_def answer_def
      token_doc_def time_Sleep_def checkErrorResponse_def decode_OAuthTokenResponse_def
      Second_def After_def time_Now_def New_def)

text \<open>
  Claim C9 as stated fails for the wait: with a wait of five seconds and a
  context cancelled after one second, the poller returns at second five, having
  slept the whole wait and called \<^verbatim>\<open>client.Do\<close> after it.
\<close>

theorem cancelled_wait_runs_in_full:
  "GetAccessTokenForDevice New (Some 1000000000) v600 ''cid'' [answer 200 token_doc] w0
     = (Some ([], Some (errors_Wrap ContextCanceled ''error performing http request'')), v600,
        \<lparr>clock = 5000000000,
         trace = [Sleep 0 5000000000,
                  Do 5000000000 (token_request New (Some 1000000000) ''D1'' ''cid'')]\<rparr>)
   \<and> (1000000000 :: int) < 5000000000"
  by (simp add: requestToken_unfold client_Do_def token_request_def v600_def w0_def answer_def
      token_doc_def time_Sleep_def Second_def New_def)

end
